theory Spec2Isabelle
  imports Complex_Main "HOL-Library.AList" "HOL-Library.Multiset"
begin

section \<open>Python values and built-ins used by the batch scripts\<close>

text \<open>
  Modelling conventions.
  \<^item> Python \<open>int\<close> is \<open>int\<close>. A Python \<open>float\<close> is modelled by the real number it
    denotes and float arithmetic by exact arithmetic: IEEE rounding, infinities and NaN
    are outside the model.
  \<^item> Text is a list of 8-bit characters, read as the code points below 256.
  \<^item> An exception is a value of type \<open>exn\<close>; a function that may raise returns
    \<open>exn + 'a\<close>, with \<open>Inl\<close> for the exception.
\<close>

datatype value_error =
    CouldNotParseTimeSeconds   \<comment> \<open>\<open>run_mandelbrot\<close>: no \<open>TIME_SECONDS=\<close> line on stderr\<close>
  | CouldNotConvertToFloat     \<comment> \<open>raised by the built-in \<open>float\<close>\<close>
  | NoAggregatedTimings        \<comment> \<open>\<open>compute_metrics\<close>: empty input\<close>

datatype exn =
    FileNotFoundError
  | RuntimeError int
  | ValueError value_error
  | ZeroDivisionError
  | KeyError
  | IndexError
  | StatisticsError

definition LF :: char where "LF = CHR 0x0A"

text \<open>\<open>str.isspace\<close> on the code points below 256.\<close>

definition isspace :: "char \<Rightarrow> bool" where
  "isspace c \<longleftrightarrow> c \<in> set [CHR 0x09, CHR 0x0A, CHR 0x0B, CHR 0x0C, CHR 0x0D,
     CHR 0x1C, CHR 0x1D, CHR 0x1E, CHR 0x1F, CHR 0x20, CHR 0x85, CHR 0xA0]"

definition lstrip :: "string \<Rightarrow> string" where
  "lstrip s = dropWhile isspace s"

definition rstrip :: "string \<Rightarrow> string" where
  "rstrip s = rev (dropWhile isspace (rev s))"

text \<open>\<open>s.strip()\<close>\<close>

definition strip :: "string \<Rightarrow> string" where
  "strip s = rstrip (lstrip s)"

text \<open>\<open>s.startswith(p)\<close>\<close>

definition startswith :: "string \<Rightarrow> string \<Rightarrow> bool" where
  "startswith s p \<longleftrightarrow> take (length p) s = p"

text \<open>\<open>s.split(c, 1)\<close> for a one-character separator: one or two pieces.\<close>

definition split_once :: "char \<Rightarrow> string \<Rightarrow> string list" where
  "split_once c s =
     (if c \<in> set s
      then [takeWhile (\<lambda>x. x \<noteq> c) s, tl (dropWhile (\<lambda>x. x \<noteq> c) s)]
      else [s])"

text \<open>\<open>xs[i]\<close> for a non-negative index.\<close>

definition index :: "'a list \<Rightarrow> nat \<Rightarrow> exn + 'a" where
  "index xs i = (if i < length xs then Inr (xs ! i) else Inl IndexError)"

text \<open>\<open>s.replace(",", ".")\<close>\<close>

definition replace_comma :: "string \<Rightarrow> string" where
  "replace_comma s = map (\<lambda>c. if c = CHR '','' then CHR ''.'' else c) s"

subsection \<open>Decimal literals\<close>

definition isdigit :: "char \<Rightarrow> bool" where
  "isdigit c \<longleftrightarrow> c \<in> set ''0123456789''"

definition digit_val :: "char \<Rightarrow> nat" where
  "digit_val c = of_char c - 48"

definition nat_of_digits :: "string \<Rightarrow> nat" where
  "nat_of_digits ds = foldl (\<lambda>n c. 10 * n + digit_val c) 0 ds"

text \<open>
  The built-in \<open>float\<close> is a parameter of the parser below. For evaluating examples,
  \<open>float_decimal\<close> is \<open>float\<close> on the literals
  \<open>[+-] digits [. digits]\<close>, \<open>[+-] . digits\<close> (surrounding whitespace ignored),
  with the literal's exact value; every other string is rejected here.
\<close>

definition float_decimal :: "string \<Rightarrow> exn + real" where
  "float_decimal s0 =
     (let s = strip s0;
          neg = (s \<noteq> [] \<and> hd s = CHR ''-'');
          body = (if s \<noteq> [] \<and> (hd s = CHR ''-'' \<or> hd s = CHR ''+'') then tl s else s);
          ip = takeWhile isdigit body;
          rest = dropWhile isdigit body;
          fp = (if rest = [] then [] else tl rest);
          ok = ((rest = [] \<and> ip \<noteq> []) \<or>
                (rest \<noteq> [] \<and> hd rest = CHR ''.'' \<and> list_all isdigit fp \<and> (ip \<noteq> [] \<or> fp \<noteq> [])));
          v = real (nat_of_digits ip) + real (nat_of_digits fp) / 10 ^ length fp
      in if ok then Inr (if neg then - v else v) else Inl (ValueError CouldNotConvertToFloat))"

section \<open>batch\_run\_task1: the Mandelbrot batch\<close>

subsection \<open>\<open>run_mandelbrot\<close>\<close>

text \<open>
  What one invocation of the external executable leaves behind: whether the executable
  exists, the exit code and the lines of the captured error stream
  (\<open>proc.stderr.splitlines()\<close>).
\<close>

record proc =
  exe_exists :: bool
  returncode :: int
  stderr_lines :: "string list"

text \<open>
  Lines 40 to 47: the loop over the lines, leaving at the first line that starts with
  \<open>TIME_SECONDS=\<close>. The result is the final value of \<open>time_sec\<close>
  (\<open>None\<close> when no line matched), or the exception raised inside the loop.
\<close>

fun scan_time_seconds :: "(string \<Rightarrow> exn + 'f) \<Rightarrow> string list \<Rightarrow> exn + 'f option" where
  "scan_time_seconds cvt [] = Inr None"
| "scan_time_seconds cvt (l # rest) =
     (let line = strip l in
      if startswith line ''TIME_SECONDS='' then
        (case index (split_once CHR ''='' line) 1 of
           Inl e \<Rightarrow> Inl e
         | Inr piece \<Rightarrow>
            (let value_str = replace_comma (strip piece) in
             case cvt value_str of
               Inl e \<Rightarrow> Inl e
             | Inr t \<Rightarrow> Inr (Some t)))
      else scan_time_seconds cvt rest)"

text \<open>Lines 40 to 55: the scan, then the check that a value was found.\<close>

definition parse_time_seconds :: "(string \<Rightarrow> exn + 'f) \<Rightarrow> string list \<Rightarrow> exn + 'f" where
  "parse_time_seconds cvt lines =
     (case scan_time_seconds cvt lines of
        Inl e \<Rightarrow> Inl e
      | Inr None \<Rightarrow> Inl (ValueError CouldNotParseTimeSeconds)
      | Inr (Some t) \<Rightarrow> Inr t)"

definition run_mandelbrot :: "(string \<Rightarrow> exn + 'f) \<Rightarrow> proc \<Rightarrow> exn + 'f" where
  "run_mandelbrot cvt p =
     (if \<not> exe_exists p then Inl FileNotFoundError
      else if returncode p \<noteq> 0 then Inl (RuntimeError (returncode p))
      else parse_time_seconds cvt (stderr_lines p))"

subsection \<open>\<open>collect_timings\<close>\<close>

type_synonym timing = "int \<times> int \<times> int \<times> real"  \<comment> \<open>(nthreads, npoints, run index, time)\<close>





subsection \<open>Formatting numbers\<close>

definition digit_char :: "nat \<Rightarrow> char" where
  "digit_char d = ''0123456789'' ! d"

fun digits_of_nat :: "nat \<Rightarrow> string" where
  "digits_of_nat n =
     (if n < 10 then [digit_char n] else digits_of_nat (n div 10) @ [digit_char (n mod 10)])"

declare digits_of_nat.simps [simp del]

text \<open>\<open>str(i)\<close> for an \<open>int\<close>\<close>

definition str_int :: "int \<Rightarrow> string" where
  "str_int i = (if i < 0 then CHR ''-'' # digits_of_nat (nat (- i)) else digits_of_nat (nat i))"




subsection \<open>\<open>csv.writer\<close> with the default dialect\<close>

fun join :: "string \<Rightarrow> string list \<Rightarrow> string" where
  "join sep [] = []"
| "join sep [x] = x"
| "join sep (x # y # ys) = x @ sep @ join sep (y # ys)"





subsection \<open>\<open>save_timings_csv\<close>\<close>




subsection \<open>\<open>aggregate_by_nthreads\<close>\<close>

type_synonym aggregate = "int \<times> int \<times> real"  \<comment> \<open>(nthreads, npoints, mean time)\<close>

text \<open>
  The two dictionaries are association lists in insertion order, as Python's \<open>dict\<close>:
  \<open>AList.update\<close> replaces the value of a key in place and puts a new key at the end.
\<close>

type_synonym tables = "(int \<times> real list) list \<times> (int \<times> int) list"

text \<open>\<open>d.setdefault(k, []).append(t)\<close>\<close>

definition setdefault_append :: "(int \<times> real list) list \<Rightarrow> int \<Rightarrow> real \<Rightarrow> (int \<times> real list) list" where
  "setdefault_append d k t =
     (case map_of d k of
        None \<Rightarrow> AList.update k [t] d
      | Some l \<Rightarrow> AList.update k (l @ [t]) d)"

text \<open>Lines 89 to 91.\<close>

fun group_timings :: "timing list \<Rightarrow> tables \<Rightarrow> tables" where
  "group_timings [] tbs = tbs"
| "group_timings ((nt, np, r, t) # ts) tbs =
     group_timings ts (setdefault_append (fst tbs) nt t, AList.update nt np (snd tbs))"

text \<open>\<open>d[k]\<close>\<close>

definition lookup :: "('k \<times> 'v) list \<Rightarrow> 'k \<Rightarrow> exn + 'v" where
  "lookup d k = (case map_of d k of None \<Rightarrow> Inl KeyError | Some v \<Rightarrow> Inr v)"

text \<open>\<open>statistics.mean\<close>: the exact mean; an empty argument raises.\<close>

definition statistics_mean :: "real list \<Rightarrow> exn + real" where
  "statistics_mean xs = (if xs = [] then Inl StatisticsError else Inr (sum_list xs / real (length xs)))"

text \<open>Lines 93 to 97, over the sorted keys.\<close>

fun aggregate_keys :: "tables \<Rightarrow> int list \<Rightarrow> aggregate list \<Rightarrow> exn + aggregate list" where
  "aggregate_keys tbs [] aggregated = Inr aggregated"
| "aggregate_keys tbs (nt # ks) aggregated =
     (case lookup (fst tbs) nt of
        Inl e \<Rightarrow> Inl e
      | Inr t_list \<Rightarrow>
         (case statistics_mean t_list of
            Inl e \<Rightarrow> Inl e
          | Inr mean_t \<Rightarrow>
             (case lookup (snd tbs) nt of
                Inl e \<Rightarrow> Inl e
              | Inr np \<Rightarrow> aggregate_keys tbs ks (aggregated @ [(nt, np, mean_t)]))))"

definition aggregate_by_nthreads :: "timing list \<Rightarrow> exn + aggregate list" where
  "aggregate_by_nthreads timings =
     (let tbs = group_timings timings ([], []) in
      aggregate_keys tbs (sort (map fst (fst tbs))) [])"

subsection \<open>\<open>compute_metrics\<close>\<close>

type_synonym metric = "int \<times> int \<times> real \<times> real \<times> real"
  \<comment> \<open>(nthreads, npoints, mean time, speedup, efficiency)\<close>

text \<open>Lines 111 to 115: the mean time of the first entry with \<open>nthreads == 1\<close>.\<close>

fun find_base :: "aggregate list \<Rightarrow> real option" where
  "find_base [] = None"
| "find_base ((nt, np, t) # rest) = (if nt = 1 then Some t else find_base rest)"

text \<open>\<open>min(rows, key=lambda row: row[0])\<close> on a non-empty list: the first minimal entry.\<close>

fun min_by_nthreads :: "aggregate \<Rightarrow> aggregate list \<Rightarrow> aggregate" where
  "min_by_nthreads b [] = b"
| "min_by_nthreads b (r # rs) = min_by_nthreads (if fst r < fst b then r else b) rs"

definition fallback_message :: "int \<Rightarrow> string" where
  "fallback_message base_nthreads =
     ''[INFO] No nthreads=1 in timings, using nthreads='' @ str_int base_nthreads @ '' as base''"

text \<open>\<open>a / b\<close> on floats (an \<open>int\<close> operand is converted first).\<close>

definition float_div :: "real \<Rightarrow> real \<Rightarrow> exn + real" where
  "float_div a b = (if b = 0 then Inl ZeroDivisionError else Inr (a / b))"

text \<open>Lines 123 to 127.\<close>

fun metrics_loop :: "real \<Rightarrow> aggregate list \<Rightarrow> metric list \<Rightarrow> exn + metric list" where
  "metrics_loop t_base [] metrics = Inr metrics"
| "metrics_loop t_base ((nt, np, t) # rest) metrics =
     (case float_div t_base t of
        Inl e \<Rightarrow> Inl e
      | Inr sp \<Rightarrow>
         (case float_div sp (of_int nt) of
            Inl e \<Rightarrow> Inl e
          | Inr ep \<Rightarrow> metrics_loop t_base rest (metrics @ [(nt, np, t, sp, ep)])))"

text \<open>
  The result is the list of lines printed and either the exception raised or the list
  returned.
\<close>

definition compute_metrics :: "aggregate list \<Rightarrow> string list \<times> (exn + metric list)" where
  "compute_metrics aggregated_timings =
     (case aggregated_timings of
        [] \<Rightarrow> ([], Inl (ValueError NoAggregatedTimings))
      | r # rs \<Rightarrow>
         (case find_base aggregated_timings of
            Some t_base \<Rightarrow> ([], metrics_loop t_base aggregated_timings [])
          | None \<Rightarrow>
             (let base_entry = min_by_nthreads r rs;
                  base_nthreads = fst base_entry;
                  t_base = snd (snd base_entry)
              in ([fallback_message base_nthreads],
                  metrics_loop t_base aggregated_timings []))))"

subsection \<open>\<open>save_metrics_csv\<close>\<close>




subsection \<open>\<open>main\<close>\<close>




subsection \<open>What the aggregator is meant to compute\<close>

text \<open>
  These follow the specification's words, for comparison with \<open>aggregate_by_nthreads\<close>:
  the times of the trials with thread count \<open>k\<close>, in input order; the point count of the
  last such trial; and the row reported for \<open>k\<close>.
\<close>

definition times_of :: "int \<Rightarrow> timing list \<Rightarrow> real list" where
  "times_of k ts = map (\<lambda>x. snd (snd (snd x))) (filter (\<lambda>x. fst x = k) ts)"

definition last_npoints :: "int \<Rightarrow> timing list \<Rightarrow> int" where
  "last_npoints k ts = fst (snd (last (filter (\<lambda>x. fst x = k) ts)))"

definition group_mean :: "timing list \<Rightarrow> int \<Rightarrow> aggregate" where
  "group_mean ts k =
     (k, last_npoints k ts, sum_list (times_of k ts) / real (length (times_of k ts)))"

subsection \<open>The fixed six-decimal form\<close>


section \<open>batch\_run\_task2: the N-body batch\<close>

subsection \<open>The configuration file\<close>

datatype json =
    JNull
  | JBool bool
  | JNum real
  | JStr string
  | JList "json list"
  | JDict "(string \<times> json) list"

text \<open>
  A configuration is a JSON object, as \<open>read_json_config\<close> returns it (a \<open>dict\<close>): an
  association list in insertion order. The configuration file is modelled by the object
  it holds, \<open>None\<close> when the file does not exist; \<open>json.load\<close> and \<open>json.dump\<close>
  are the identity at this level, and the layout of the file's text is not modelled.
\<close>

type_synonym config = "(string \<times> json) list"

definition read_json_config :: "config option \<Rightarrow> exn + config" where
  "read_json_config file = (case file of None \<Rightarrow> Inl FileNotFoundError | Some data \<Rightarrow> Inr data)"

definition write_json_config :: "config \<Rightarrow> config option" where
  "write_json_config data = Some data"

record batch_cfg =
  cfg_name :: string
  cfg_tend :: real
  cfg_dt :: real
  cfg_input :: string

record omp_cfg = batch_cfg +
  cfg_threads :: int

definition mk_cfg :: "string \<Rightarrow> real \<Rightarrow> real \<Rightarrow> string \<Rightarrow> batch_cfg" where
  "mk_cfg n te d i = \<lparr>cfg_name = n, cfg_tend = te, cfg_dt = d, cfg_input = i\<rparr>"

definition mk_omp_cfg :: "string \<Rightarrow> real \<Rightarrow> real \<Rightarrow> string \<Rightarrow> int \<Rightarrow> omp_cfg" where
  "mk_omp_cfg n te d i th =
     \<lparr>cfg_name = n, cfg_tend = te, cfg_dt = d, cfg_input = i, cfg_threads = th\<rparr>"

definition BATCH_CONFIGS :: "batch_cfg list" where
  "BATCH_CONFIGS =
     [mk_cfg ''N100_dt10'' 10000 10 ''random_N100.txt'',
      mk_cfg ''N100_dt5'' 10000 5 ''random_N100.txt'',
      mk_cfg ''N100_dt2'' 10000 2 ''random_N100.txt'',
      mk_cfg ''N500_dt10'' 10000 10 ''random_N500.txt'',
      mk_cfg ''N500_dt5'' 10000 5 ''random_N500.txt'',
      mk_cfg ''N500_dt2'' 10000 2 ''random_N500.txt'',
      mk_cfg ''N2000_dt10'' 10000 10 ''random_N2000.txt'',
      mk_cfg ''N2000_dt5'' 10000 5 ''random_N2000.txt'']"

definition BATCH_CONFIGS_OMP :: "omp_cfg list" where
  "BATCH_CONFIGS_OMP =
     [mk_omp_cfg ''N2000_dt5_threads1'' 10000 5 ''random_N2000.txt'' 1,
      mk_omp_cfg ''N2000_dt5_threads2'' 10000 5 ''random_N2000.txt'' 2,
      mk_omp_cfg ''N2000_dt5_threads4'' 10000 5 ''random_N2000.txt'' 4,
      mk_omp_cfg ''N2000_dt5_threads8'' 10000 5 ''random_N2000.txt'' 8,
      mk_omp_cfg ''N2000_dt5_threads16'' 10000 5 ''random_N2000.txt'' 16]"

definition TARGETS :: "string list" where
  "TARGETS = [''cpu'', ''cuda'']"

text \<open>
  Lines 129 to 138 (and 238 to 247): the configuration written before each launch. An
  absent or empty original configuration contributes nothing.
\<close>

fun carry_extra_keys :: "config \<Rightarrow> string list \<Rightarrow> config \<Rightarrow> config" where
  "carry_extra_keys original_config [] new_config = new_config"
| "carry_extra_keys original_config (extra_key # ks) new_config =
     carry_extra_keys original_config ks
       (case map_of original_config extra_key of
          None \<Rightarrow> new_config
        | Some v \<Rightarrow>
           (if map_of new_config extra_key = None
            then AList.update extra_key v new_config else new_config))"

definition make_new_config :: "config option \<Rightarrow> real \<Rightarrow> real \<Rightarrow> string \<Rightarrow> config" where
  "make_new_config original_config tend dt input_rel =
     (let new_config = [(''tend'', JNum tend), (''dt'', JNum dt), (''input'', JStr input_rel)] in
      case original_config of
        None \<Rightarrow> new_config
      | Some oc \<Rightarrow>
         (if oc = [] then new_config else carry_extra_keys oc [''n'', ''seed''] new_config))"

subsection \<open>\<open>collect_metrics\<close>\<close>

text \<open>
  What is printed is recorded as a list of events; the banners and progress lines are not
  modelled.
\<close>

datatype event =
    ErrorRunScriptNotFound
  | WarnOriginalConfigNotFound
  | ErrorRunFailed string string int      \<comment> \<open>target, batch name, exit code\<close>
  | ErrorOmpRunFailed string int          \<comment> \<open>batch name, exit code\<close>
  | WarnMetricsFileNotFound string        \<comment> \<open>target\<close>
  | OkFinished string string              \<comment> \<open>target, batch name\<close>
  | OkFinishedOmp string int string       \<comment> \<open>batch name, requested and actual threads\<close>
  | OriginalConfigRestored

text \<open>
  What one launch of \<open>run_once.ps1\<close> leaves behind: the exit code and the two metrics
  files (their lines, or \<open>None\<close> for a file that does not exist). The launcher is the
  environment: \<open>launch args omp k\<close> is the outcome of the launch with arguments \<open>args\<close>
  and \<open>OMP_NUM_THREADS\<close> override \<open>omp\<close> when \<open>k\<close> launches were made before it.
  The launcher reads the configuration file and is taken not to write it.
\<close>

record run_result =
  rc :: int
  metrics_cpu :: "string list option"
  metrics_cuda :: "string list option"

type_synonym launcher = "string list \<Rightarrow> string option \<Rightarrow> nat \<Rightarrow> run_result"

text \<open>Lines 72 to 77: one line of the metrics file.\<close>

definition metrics_line_update :: "string \<Rightarrow> (string \<rightharpoonup> string) \<Rightarrow> (string \<rightharpoonup> string)" where
  "metrics_line_update l result =
     (let line = strip l in
      if line = [] \<or> CHR '':'' \<notin> set line then result
      else result(strip (takeWhile (\<lambda>c. c \<noteq> CHR '':'') line) \<mapsto>
                  strip (tl (dropWhile (\<lambda>c. c \<noteq> CHR '':'') line))))"

fun metrics_lines :: "string list \<Rightarrow> (string \<rightharpoonup> string) \<Rightarrow> (string \<rightharpoonup> string)" where
  "metrics_lines [] result = result"
| "metrics_lines (l # ls) result = metrics_lines ls (metrics_line_update l result)"

text \<open>The events printed and the dictionary returned (\<open>None\<close> for Python's \<open>None\<close>).\<close>

definition collect_metrics :: "string \<Rightarrow> run_result \<Rightarrow> event list \<times> (string \<rightharpoonup> string) option" where
  "collect_metrics target res =
     (let mfile = (if target = ''cpu'' then metrics_cpu res else metrics_cuda res) in
      case mfile of
        None \<Rightarrow> ([WarnMetricsFileNotFound target], None)
      | Some ls \<Rightarrow> ([], Some (metrics_lines ls Map.empty)))"

subsection \<open>The summary rows\<close>

text \<open>\<open>d.get(k, default)\<close>\<close>

definition dict_get :: "(string \<rightharpoonup> string) \<Rightarrow> string \<Rightarrow> string \<Rightarrow> string" where
  "dict_get d k dflt = (case d k of None \<Rightarrow> dflt | Some v \<Rightarrow> v)"

text \<open>\<open>s.split()\<close>: the maximal runs of non-whitespace characters.\<close>

fun split_ws_from :: "string \<Rightarrow> string \<Rightarrow> string list" where
  "split_ws_from word [] = (if word = [] then [] else [word])"
| "split_ws_from word (c # cs) =
     (if isspace c
      then (if word = [] then split_ws_from [] cs else word # split_ws_from [] cs)
      else split_ws_from (word @ [c]) cs)"

definition split_ws :: "string \<Rightarrow> string list" where
  "split_ws s = split_ws_from [] s"

text \<open>\<open>metrics.get(k, "").split()[0]\<close>\<close>

definition first_word :: "(string \<rightharpoonup> string) \<Rightarrow> string \<Rightarrow> exn + string" where
  "first_word metrics k = index (split_ws (dict_get metrics k [])) 0"

text \<open>
  Lines 162 to 190, 192 to 220 and 266 to 294 are the same code up to the two keys
  \<open>device_key\<close> and \<open>total_key\<close> and the target written in the second column.
\<close>

definition summary_row ::
  "string \<Rightarrow> string \<Rightarrow> string \<Rightarrow> string \<Rightarrow> string \<Rightarrow> (string \<rightharpoonup> string) \<Rightarrow> exn + string list" where
  "summary_row batch_name target device_key total_key input_rel metrics =
     (let particles = dict_get metrics ''Particles'' [];
          eps = dict_get metrics ''eps'' [];
          t_end_str = dict_get metrics ''t_end'' [];
          dt_str = dict_get metrics ''dt'' [];
          threads = dict_get metrics device_key [];
          total_steps = dict_get metrics ''Total steps'' []
      in case first_word metrics total_key of
           Inl e \<Rightarrow> Inl e
         | Inr total_time \<Rightarrow>
      (case first_word metrics ''Min step time'' of
           Inl e \<Rightarrow> Inl e
         | Inr min_step \<Rightarrow>
      (case first_word metrics ''Avg step time'' of
           Inl e \<Rightarrow> Inl e
         | Inr avg_step \<Rightarrow>
      (case first_word metrics ''Steps per second (avg)'' of
           Inl e \<Rightarrow> Inl e
         | Inr steps_per_sec \<Rightarrow>
           (let traj = dict_get metrics ''Output trajectories'' [];
                input_file = dict_get metrics ''Input file'' input_rel
            in Inr [batch_name, target, input_file, t_end_str, dt_str, eps, particles,
                    threads, total_steps, total_time, min_step, avg_step, steps_per_sec,
                    traj])))))"

definition cpu_row :: "string \<Rightarrow> string \<Rightarrow> (string \<rightharpoonup> string) \<Rightarrow> exn + string list" where
  "cpu_row batch_name input_rel metrics =
     summary_row batch_name ''cpu'' ''OpenMP threads'' ''Total compute time (sum of per-step)''
       input_rel metrics"

definition cuda_row :: "string \<Rightarrow> string \<Rightarrow> (string \<rightharpoonup> string) \<Rightarrow> exn + string list" where
  "cuda_row batch_name input_rel metrics =
     summary_row batch_name ''cuda'' ''CUDA device'' ''Total kernel time (reset+forces+step)''
       input_rel metrics"

definition header_cols :: "string list" where
  "header_cols =
     [''batch_name'', ''target'', ''input_file'', ''t_end'', ''dt'', ''eps'', ''particles'',
      ''threads_or_device'', ''total_steps'', ''total_time_s_or_ms'', ''min_step'',
      ''avg_step'', ''steps_per_sec'', ''trajectories_path'']"

subsection \<open>The batch loops\<close>

text \<open>
  The state the batch works on: the configuration file, the text of the summary file,
  what was printed and the number of launches made. Every step returns the state and the
  exception that ended it, if any.
\<close>

record world =
  config_file :: "config option"
  summary :: string
  printed :: "event list"
  launches :: nat

definition target_args :: "string \<Rightarrow> string list" where
  "target_args target =
     (if target = ''cpu'' then [''cpu'', ''-NoPlot'', ''-NoTrajectories'']
      else [''cuda'', ''-NoPlot'', ''-NoTrajectories''])"

text \<open>Lines 144 to 224: the body of the loop over the targets.\<close>

definition run_target :: "launcher \<Rightarrow> batch_cfg \<Rightarrow> string \<Rightarrow> world \<Rightarrow> world \<times> exn option" where
  "run_target launch cfg target w =
     (let res = launch (target_args target) None (launches w);
          w1 = w\<lparr>launches := Suc (launches w)\<rparr>
      in if rc res \<noteq> 0
         then (w1\<lparr>printed := printed w1 @ [ErrorRunFailed target (cfg_name cfg) (rc res)]\<rparr>, None)
         else
          (case collect_metrics target res of
             (out, None) \<Rightarrow> (w1\<lparr>printed := printed w1 @ out\<rparr>, None)
           | (out, Some metrics) \<Rightarrow>
              (let w2 = w1\<lparr>printed := printed w1 @ out\<rparr> in
               case (if target = ''cpu'' then cpu_row (cfg_name cfg) (cfg_input cfg) metrics
                     else cuda_row (cfg_name cfg) (cfg_input cfg) metrics) of
                 Inl e \<Rightarrow> (w2, Some e)
               | Inr row \<Rightarrow>
                  (w2\<lparr>summary := summary w2 @ join '','' row @ [LF],
                      printed := printed w2 @ [OkFinished target (cfg_name cfg)]\<rparr>, None))))"

fun run_targets :: "launcher \<Rightarrow> batch_cfg \<Rightarrow> string list \<Rightarrow> world \<Rightarrow> world \<times> exn option" where
  "run_targets launch cfg [] w = (w, None)"
| "run_targets launch cfg (target # rest) w =
     (case run_target launch cfg target w of
        (w', Some e) \<Rightarrow> (w', Some e)
      | (w', None) \<Rightarrow> run_targets launch cfg rest w')"

text \<open>Lines 118 to 224: the body of the loop over \<open>BATCH_CONFIGS\<close>.\<close>

definition run_cfg :: "launcher \<Rightarrow> config option \<Rightarrow> batch_cfg \<Rightarrow> world \<Rightarrow> world \<times> exn option" where
  "run_cfg launch original_config cfg w =
     run_targets launch cfg TARGETS
       (w\<lparr>config_file := write_json_config
            (make_new_config original_config (cfg_tend cfg) (cfg_dt cfg) (cfg_input cfg))\<rparr>)"

fun run_cfgs :: "launcher \<Rightarrow> config option \<Rightarrow> batch_cfg list \<Rightarrow> world \<Rightarrow> world \<times> exn option" where
  "run_cfgs launch original_config [] w = (w, None)"
| "run_cfgs launch original_config (cfg # rest) w =
     (case run_cfg launch original_config cfg w of
        (w', Some e) \<Rightarrow> (w', Some e)
      | (w', None) \<Rightarrow> run_cfgs launch original_config rest w')"

text \<open>Lines 226 to 298: the body of the loop over \<open>BATCH_CONFIGS_OMP\<close>.\<close>

definition run_omp_cfg :: "launcher \<Rightarrow> config option \<Rightarrow> omp_cfg \<Rightarrow> world \<Rightarrow> world \<times> exn option" where
  "run_omp_cfg launch original_config cfg w =
     (let w0 = w\<lparr>config_file := write_json_config
                 (make_new_config original_config (cfg_tend cfg) (cfg_dt cfg) (cfg_input cfg))\<rparr>;
          res = launch [''cpu'', ''-NoPlot'', ''-NoTrajectories'']
                  (Some (str_int (cfg_threads cfg))) (launches w0);
          w1 = w0\<lparr>launches := Suc (launches w0)\<rparr>
      in if rc res \<noteq> 0
         then (w1\<lparr>printed := printed w1 @ [ErrorOmpRunFailed (cfg_name cfg) (rc res)]\<rparr>, None)
         else
          (case collect_metrics ''cpu'' res of
             (out, None) \<Rightarrow> (w1\<lparr>printed := printed w1 @ out\<rparr>, None)
           | (out, Some metrics) \<Rightarrow>
              (let w2 = w1\<lparr>printed := printed w1 @ out\<rparr> in
               case cpu_row (cfg_name cfg) (cfg_input cfg) metrics of
                 Inl e \<Rightarrow> (w2, Some e)
               | Inr row \<Rightarrow>
                  (w2\<lparr>summary := summary w2 @ join '','' row @ [LF],
                      printed := printed w2 @
                        [OkFinishedOmp (cfg_name cfg) (cfg_threads cfg)
                           (dict_get metrics ''OpenMP threads'' [])]\<rparr>, None))))"

fun run_omp_cfgs :: "launcher \<Rightarrow> config option \<Rightarrow> omp_cfg list \<Rightarrow> world \<Rightarrow> world \<times> exn option" where
  "run_omp_cfgs launch original_config [] w = (w, None)"
| "run_omp_cfgs launch original_config (cfg # rest) w =
     (case run_omp_cfg launch original_config cfg w of
        (w', Some e) \<Rightarrow> (w', Some e)
      | (w', None) \<Rightarrow> run_omp_cfgs launch original_config rest w')"

subsection \<open>\<open>main\<close>\<close>

text \<open>
  The result is the final state and either the exception that ended the run or the exit
  code returned. \<open>run_script_exists\<close> is \<open>RUN_SCRIPT.exists()\<close>.
\<close>

definition main_task2 :: "launcher \<Rightarrow> bool \<Rightarrow> world \<Rightarrow> world \<times> (exn + int)" where
  "main_task2 launch run_script_exists w =
     (if \<not> run_script_exists
      then (w\<lparr>printed := printed w @ [ErrorRunScriptNotFound]\<rparr>, Inr 1)
      else
       (let (original_config, w1) =
              (case read_json_config (config_file w) of
                 Inl e \<Rightarrow> (None, w\<lparr>printed := printed w @ [WarnOriginalConfigNotFound]\<rparr>)
               | Inr data \<Rightarrow> (Some data, w));
            w2 = w1\<lparr>summary := join '','' header_cols @ [LF]\<rparr>
        in case run_cfgs launch original_config BATCH_CONFIGS w2 of
             (w3, Some e) \<Rightarrow> (w3, Inl e)
           | (w3, None) \<Rightarrow>
              (case run_omp_cfgs launch original_config BATCH_CONFIGS_OMP w3 of
                 (w4, Some e) \<Rightarrow> (w4, Inl e)
               | (w4, None) \<Rightarrow>
                  (case original_config of
                     None \<Rightarrow> (w4, Inr 0)
                   | Some oc \<Rightarrow>
                      (w4\<lparr>config_file := write_json_config oc,
                          printed := printed w4 @ [OriginalConfigRestored]\<rparr>, Inr 0)))))"

subsection \<open>Environments for the examples\<close>





section \<open>The metric parser\<close>

lemma split_once_after_prefix:
  assumes "c \<notin> set k"
  shows "split_once c (k @ c # v) = [k, v]"
proof -
  have "takeWhile (\<lambda>x. x \<noteq> c) (k @ c # v) = k"
    using assms by (induction k) auto
  moreover have "dropWhile (\<lambda>x. x \<noteq> c) (k @ c # v) = c # v"
    using assms by (induction k) auto
  ultimately show ?thesis
    by (simp add: split_once_def)
qed

lemma scan_no_match:
  "\<forall>l \<in> set lines. \<not> startswith (strip l) ''TIME_SECONDS='' \<Longrightarrow>
   scan_time_seconds cvt lines = Inr None"
  by (induction lines) simp_all

lemma scan_skip_prefix:
  "\<forall>l \<in> set pre. \<not> startswith (strip l) ''TIME_SECONDS='' \<Longrightarrow>
   scan_time_seconds cvt (pre @ rest) = scan_time_seconds cvt rest"
  by (induction pre) simp_all

lemma scan_at_match:
  assumes "strip l = ''TIME_SECONDS='' @ v"
  shows "scan_time_seconds cvt (l # rest) =
         (case cvt (replace_comma (strip v)) of Inl e \<Rightarrow> Inl e | Inr t \<Rightarrow> Inr (Some t))"
proof -
  have "split_once CHR ''='' (''TIME_SECONDS'' @ CHR ''='' # v) = [''TIME_SECONDS'', v]"
    by (rule split_once_after_prefix) simp
  then have "split_once CHR ''='' (strip l) = [''TIME_SECONDS'', v]"
    using assms by simp
  then show ?thesis
    using assms by (simp add: startswith_def index_def)
qed

text \<open>
  C3. The lines are scanned in order; the first line whose stripped form starts with
  \<open>TIME_SECONDS=\<close> decides the result: the text after the \<open>=\<close> is stripped, its
  commas are replaced by points, and the result is what \<open>float\<close> makes of that string.
  Lines after the first match are not looked at.
\<close>

theorem parse_time_seconds_first_match:
  assumes "i < length lines"
    and "strip (lines ! i) = ''TIME_SECONDS='' @ v"
    and "\<forall>j < i. \<not> startswith (strip (lines ! j)) ''TIME_SECONDS=''"
  shows "parse_time_seconds cvt lines = cvt (replace_comma (strip v))"
proof -
  have split: "lines = take i lines @ lines ! i # drop (Suc i) lines"
    using assms(1) by (simp add: id_take_nth_drop)
  have "\<forall>l \<in> set (take i lines). \<not> startswith (strip l) ''TIME_SECONDS=''"
    using assms(1,3) by (auto simp: in_set_conv_nth)
  then have "scan_time_seconds cvt (take i lines @ lines ! i # drop (Suc i) lines) =
             scan_time_seconds cvt (lines ! i # drop (Suc i) lines)"
    by (rule scan_skip_prefix)
  with split have "scan_time_seconds cvt lines =
      scan_time_seconds cvt (lines ! i # drop (Suc i) lines)"
    by simp
  also have "\<dots> = (case cvt (replace_comma (strip v)) of
                      Inl e \<Rightarrow> Inl e | Inr t \<Rightarrow> Inr (Some t))"
    using assms(2) by (rule scan_at_match)
  finally show ?thesis
    by (simp add: parse_time_seconds_def split: sum.splits)
qed

theorem parse_time_seconds_first_match_witness:
  "parse_time_seconds float_decimal [''junk'', ''TIME_SECONDS=1,234567'', ''more junk'']
     = Inr 1.234567"
  using parse_time_seconds_first_match
    [of 1 "[''junk'', ''TIME_SECONDS=1,234567'', ''more junk'']" "''1,234567''" float_decimal]
  by (simp add: startswith_def float_decimal_def strip_def lstrip_def rstrip_def isspace_def
      isdigit_def nat_of_digits_def digit_val_def Let_def replace_comma_def)

text \<open>
  C4. When no line of the error stream, stripped, starts with \<open>TIME_SECONDS=\<close>, the
  parser raises (the \<open>ValueError\<close> of line 50) and so does \<open>run_mandelbrot\<close> on a run
  that exited with code 0: no value is returned.
\<close>

theorem run_mandelbrot_metric_not_found:
  assumes "\<forall>l \<in> set lines. \<not> startswith (strip l) ''TIME_SECONDS=''"
  shows "parse_time_seconds cvt lines = Inl (ValueError CouldNotParseTimeSeconds) \<and>
         run_mandelbrot cvt \<lparr>exe_exists = True, returncode = 0, stderr_lines = lines\<rparr>
           = Inl (ValueError CouldNotParseTimeSeconds)"
  using scan_no_match [OF assms, of cvt]
  by (simp add: parse_time_seconds_def run_mandelbrot_def)

theorem run_mandelbrot_metric_not_found_witness:
  "run_mandelbrot float_decimal
     \<lparr>exe_exists = True, returncode = 0, stderr_lines = [''junk'', ''TIME=3'', ''more junk'']\<rparr>
     = Inl (ValueError CouldNotParseTimeSeconds)"
  using run_mandelbrot_metric_not_found [of "[''junk'', ''TIME=3'', ''more junk'']" float_decimal]
  by (simp add: startswith_def strip_def lstrip_def rstrip_def isspace_def)

section \<open>The speedup and efficiency calculator\<close>

lemma metrics_loop_zero:
  "\<exists>r \<in> set agg. snd (snd r) = 0 \<Longrightarrow> metrics_loop tb agg acc = Inl ZeroDivisionError"
proof (induction agg arbitrary: acc)
  case Nil
  then show ?case by simp
next
  case (Cons r agg)
  obtain nt np t where r: "r = (nt, np, t)" by (cases r)
  show ?case
  proof (cases "t = 0")
    case True
    then show ?thesis by (simp add: r float_div_def)
  next
    case False
    with Cons.prems r have "\<exists>r \<in> set agg. snd (snd r) = 0" by auto
    then have "\<And>acc. metrics_loop tb agg acc = Inl ZeroDivisionError" by (rule Cons.IH)
    then show ?thesis by (simp add: r float_div_def)
  qed
qed

lemma metrics_loop_ok:
  "\<forall>r \<in> set agg. fst r \<noteq> 0 \<and> snd (snd r) \<noteq> 0 \<Longrightarrow>
   metrics_loop tb agg acc =
     Inr (acc @ map (\<lambda>(nt, np, t). (nt, np, t, tb / t, tb / t / of_int nt)) agg)"
  by (induction agg arbitrary: acc) (auto simp: float_div_def)

lemma find_base_None: "find_base agg = None \<longleftrightarrow> (\<forall>r \<in> set agg. fst r \<noteq> 1)"
  by (induction agg rule: find_base.induct) auto

lemma find_base_Some:
  "find_base agg = Some t \<Longrightarrow>
   \<exists>pre np post. agg = pre @ (1, np, t) # post \<and> (\<forall>r \<in> set pre. fst r \<noteq> 1)"
proof (induction agg rule: find_base.induct)
  case 1
  then show ?case by simp
next
  case (2 nt np t' rest)
  show ?case
  proof (cases "nt = 1")
    case True
    with "2.prems" have "(nt, np, t') # rest = [] @ (1, np, t) # rest" by simp
    then show ?thesis by (metis empty_iff empty_set)
  next
    case False
    with "2.prems" have "find_base rest = Some t" by simp
    with "2.IH" False obtain pre np' post
      where "rest = pre @ (1, np', t) # post" "\<forall>r \<in> set pre. fst r \<noteq> 1" by blast
    with False have "(nt, np, t') # rest = ((nt, np, t') # pre) @ (1, np', t) # post \<and>
      (\<forall>r \<in> set ((nt, np, t') # pre). fst r \<noteq> 1)" by simp
    then show ?thesis by blast
  qed
qed

lemma min_by_nthreads_first:
  "\<exists>pre post. b # rs = pre @ min_by_nthreads b rs # post \<and>
     (\<forall>r \<in> set pre. fst (min_by_nthreads b rs) < fst r) \<and>
     (\<forall>r \<in> set post. fst (min_by_nthreads b rs) \<le> fst r)"
proof (induction rs arbitrary: b)
  case Nil
  have "[b] = [] @ b # []" by simp
  then show ?case by force
next
  case (Cons r rs)
  define b' where "b' = (if fst r < fst b then r else b)"
  define m where "m = min_by_nthreads b' rs"
  have m: "min_by_nthreads b (r # rs) = m" by (simp add: m_def b'_def)
  have b': "fst b' \<le> fst b" "fst b' \<le> fst r" by (auto simp: b'_def)
  from Cons.IH [of b'] obtain pre post where IH: "b' # rs = pre @ m # post"
    "\<forall>x \<in> set pre. fst m < fst x" "\<forall>x \<in> set post. fst m \<le> fst x"
    unfolding m_def by blast
  show ?case
  proof (cases pre)
    case Nil
    with IH have eq: "m = b'" "post = rs" by simp_all
    show ?thesis
    proof (cases "fst r < fst b")
      case True
      then have "b # r # rs = [b] @ m # post \<and> (\<forall>x \<in> set [b]. fst m < fst x)"
        using eq by (simp add: b'_def)
      with IH(3) show ?thesis unfolding m by blast
    next
      case False
      then have "b # r # rs = [] @ m # (r # post) \<and> (\<forall>x \<in> set (r # post). fst m \<le> fst x)"
        using eq IH(3) by (simp add: b'_def)
      then show ?thesis unfolding m by (metis empty_iff empty_set)
    qed
  next
    case (Cons p pre')
    with IH have eq: "p = b'" "rs = pre' @ m # post" by simp_all
    have "fst m < fst b'" using IH(2) Cons eq by simp
    with b' have "fst m < fst b" "fst m < fst r" by simp_all
    with IH(2) Cons have "\<forall>x \<in> set (b # r # pre'). fst m < fst x" by simp
    moreover have "b # r # rs = (b # r # pre') @ m # post" using eq by simp
    ultimately show ?thesis using IH(3) unfolding m by blast
  qed
qed

text \<open>
  C1. The end-to-end scenario: thread counts 1, 2 and 4, 100 points, two runs each with
  times 10 and 10, 6 and 5, 3 and 3. The aggregator gives the means 10, 5.5 and 3 in
  ascending order of thread count; the calculator prints nothing and gives the speedups
  1, 20/11 and 10/3 and the efficiencies 1, 10/11 and 5/6, which round to 1.818, 3.333,
  0.909 and 0.833 at three decimals.
\<close>

theorem end_to_end_scenario:
  "aggregate_by_nthreads
     [(1, 100, 1, 10), (1, 100, 2, 10), (2, 100, 1, 6), (2, 100, 2, 5), (4, 100, 1, 3), (4, 100, 2, 3)]
     = Inr [(1, 100, 10), (2, 100, 5.5), (4, 100, 3)] \<and>
   compute_metrics [(1, 100, 10), (2, 100, 5.5), (4, 100, 3)]
     = ([], Inr [(1, 100, 10, 1, 1), (2, 100, 5.5, 20 / 11, 10 / 11), (4, 100, 3, 10 / 3, 5 / 6)]) \<and>
   map (\<lambda>x. round (1000 * x)) [1, 20 / 11, 10 / 3, 1, 10 / 11, 5 / (6 :: real)]
     = [1000, 1818, 3333, 1000, 909, 833]"
proof -
  have "aggregate_by_nthreads
     [(1, 100, 1, 10), (1, 100, 2, 10), (2, 100, 1, 6), (2, 100, 2, 5), (4, 100, 1, 3), (4, 100, 2, 3)]
     = Inr [(1, 100, 10), (2, 100, 5.5), (4, 100, 3)]"
    by (simp add: aggregate_by_nthreads_def setdefault_append_def lookup_def
        statistics_mean_def Let_def)
  moreover have "compute_metrics [(1, 100, 10), (2, 100, 5.5), (4, 100, 3)]
     = ([], Inr [(1, 100, 10, 1, 1), (2, 100, 5.5, 20 / 11, 10 / 11), (4, 100, 3, 10 / 3, 5 / 6)])"
    by (simp add: compute_metrics_def float_div_def)
  moreover have "map (\<lambda>x. round (1000 * x)) [1, 20 / 11, 10 / 3, 1, 10 / 11, 5 / (6 :: real)]
     = [1000, 1818, 3333, 1000, 909, 833]"
    by (simp add: round_def)
  ultimately show ?thesis by blast
qed

text \<open>
  C2. On a non-empty input the calculator takes its baseline from one entry of the input.
  When some entry has thread count 1, that entry is the first such one and nothing is
  printed. Otherwise it is the first entry with the smallest thread count, and the
  substitution is printed, naming that thread count. Every speedup is the baseline's mean
  time divided by the entry's mean time, and every efficiency the speedup divided by the
  entry's thread count.
\<close>

theorem compute_metrics_baseline:
  assumes "agg \<noteq> []"
  shows "\<exists>pre nt np t_base post.
           agg = pre @ (nt, np, t_base) # post \<and>
           (if \<exists>r \<in> set agg. fst r = 1
            then nt = 1 \<and> (\<forall>r \<in> set pre. fst r \<noteq> 1) \<and> fst (compute_metrics agg) = []
            else (\<forall>r \<in> set pre. nt < fst r) \<and> (\<forall>r \<in> set post. nt \<le> fst r) \<and>
                 fst (compute_metrics agg) = [fallback_message nt]) \<and>
           ((\<forall>r \<in> set agg. fst r \<noteq> 0 \<and> snd (snd r) \<noteq> 0) \<longrightarrow>
              snd (compute_metrics agg) =
                Inr (map (\<lambda>(k, n, t). (k, n, t, t_base / t, t_base / t / of_int k)) agg))"
proof (cases "find_base agg")
  case None
  from assms obtain r rs where agg: "agg = r # rs" by (cases agg) auto
  define m where "m = min_by_nthreads r rs"
  obtain nt np t_base where m: "m = (nt, np, t_base)" by (cases m)
  from min_by_nthreads_first [of r rs] obtain pre post
    where split: "agg = pre @ (nt, np, t_base) # post"
      and less: "\<forall>x \<in> set pre. nt < fst x" and le: "\<forall>x \<in> set post. nt \<le> fst x"
    unfolding agg m_def [symmetric] m by auto
  have no1: "\<not> (\<exists>r \<in> set agg. fst r = 1)"
    using None by (simp add: find_base_None)
  have cm: "compute_metrics agg = ([fallback_message nt], metrics_loop t_base agg [])"
    using None m unfolding agg compute_metrics_def m_def by (simp add: Let_def)
  have "(\<forall>r \<in> set agg. fst r \<noteq> 0 \<and> snd (snd r) \<noteq> 0) \<longrightarrow>
        snd (compute_metrics agg) =
          Inr (map (\<lambda>(k, n, t). (k, n, t, t_base / t, t_base / t / of_int k)) agg)"
    using metrics_loop_ok [of agg t_base "[]"] cm by simp
  with split less le no1 cm show ?thesis
    by (intro exI [of _ pre] exI [of _ nt] exI [of _ np] exI [of _ t_base] exI [of _ post])
      simp
next
  case (Some t_base)
  from find_base_Some [OF Some] obtain pre np post
    where split: "agg = pre @ (1, np, t_base) # post" and pre: "\<forall>r \<in> set pre. fst r \<noteq> 1"
    by blast
  have has1: "\<exists>r \<in> set agg. fst r = 1"
    using split by auto
  from assms obtain r rs where agg: "agg = r # rs" by (cases agg) auto
  have cm: "compute_metrics agg = ([], metrics_loop t_base agg [])"
    using Some unfolding agg compute_metrics_def by simp
  have "(\<forall>r \<in> set agg. fst r \<noteq> 0 \<and> snd (snd r) \<noteq> 0) \<longrightarrow>
        snd (compute_metrics agg) =
          Inr (map (\<lambda>(k, n, t). (k, n, t, t_base / t, t_base / t / of_int k)) agg)"
    using metrics_loop_ok [of agg t_base "[]"] cm by simp
  with split pre has1 cm show ?thesis
    by (intro exI [of _ pre] exI [of _ 1] exI [of _ np] exI [of _ t_base] exI [of _ post])
      simp
qed

theorem compute_metrics_baseline_witness:
  "[(2, 100, 8), (4, 100, 4), (8, 100, 2 :: real)] \<noteq> [] \<and>
   compute_metrics [(2, 100, 8), (4, 100, 4), (8, 100, 2)]
     = ([''[INFO] No nthreads=1 in timings, using nthreads=2 as base''],
        Inr [(2, 100, 8, 1, 1 / 2), (4, 100, 4, 2, 1 / 2), (8, 100, 2, 4, 1 / 2)])"
proof -
  let ?agg = "[(2, 100, 8), (4, 100, 4), (8, 100, 2)] :: aggregate list"
  have ne: "?agg \<noteq> []" by simp
  from compute_metrics_baseline [OF ne] obtain pre nt np t_base post
    where split: "?agg = pre @ (nt, np, t_base) # post"
      and ite: "if \<exists>r \<in> set ?agg. fst r = 1
            then nt = 1 \<and> (\<forall>r \<in> set pre. fst r \<noteq> 1) \<and> fst (compute_metrics ?agg) = []
            else (\<forall>r \<in> set pre. nt < fst r) \<and> (\<forall>r \<in> set post. nt \<le> fst r) \<and>
                 fst (compute_metrics ?agg) = [fallback_message nt]"
      and imp: "(\<forall>r \<in> set ?agg. fst r \<noteq> 0 \<and> snd (snd r) \<noteq> 0) \<longrightarrow>
              snd (compute_metrics ?agg) =
                Inr (map (\<lambda>(k, n, t). (k, n, t, t_base / t, t_base / t / of_int k)) ?agg)"
    by blast
  have "\<not> (\<exists>r \<in> set ?agg. fst r = 1)" by simp
  with ite have sel: "(\<forall>r \<in> set pre. nt < fst r) \<and> (\<forall>r \<in> set post. nt \<le> fst r) \<and>
                fst (compute_metrics ?agg) = [fallback_message nt]"
    by presburger
  have "\<forall>r \<in> set ?agg. fst r \<noteq> 0 \<and> snd (snd r) \<noteq> 0" by simp
  with imp have res: "snd (compute_metrics ?agg) =
                Inr (map (\<lambda>(k, n, t). (k, n, t, t_base / t, t_base / t / of_int k)) ?agg)"
    by blast
  have mem: "(nt, np, t_base) \<in> set ?agg"
    by (subst split) simp
  have "nt \<le> 2"
  proof (cases pre)
    case Nil
    with split show ?thesis by simp
  next
    case (Cons p pre')
    with split have "p = (2, 100, 8)" by simp
    with sel Cons show ?thesis by simp
  qed
  with mem have base: "nt = 2" "t_base = 8" by auto
  have "str_int 2 = ''2''"
    by (simp add: str_int_def digits_of_nat.simps digit_char_def)
  with sel base have "fst (compute_metrics ?agg) =
      [''[INFO] No nthreads=1 in timings, using nthreads=2 as base'']"
    by (simp add: fallback_message_def)
  moreover from res base have "snd (compute_metrics ?agg) =
      Inr [(2, 100, 8, 1, 1 / 2), (4, 100, 4, 2, 1 / 2), (8, 100, 2, 4, 1 / 2)]"
    by simp
  ultimately show ?thesis
    by (simp add: prod_eq_iff)
qed

text \<open>
  C6. When some entry of the input has mean time zero, the calculator returns no
  metrics at all: the division raises \<open>ZeroDivisionError\<close>.
\<close>

theorem compute_metrics_zero_duration:
  assumes "(nt, np, 0) \<in> set agg"
  shows "snd (compute_metrics agg) = Inl ZeroDivisionError"
proof -
  from assms obtain r rs where agg: "agg = r # rs" by (cases agg) auto
  from assms have "\<exists>r \<in> set agg. snd (snd r) = 0" by force
  then have "\<And>tb. metrics_loop tb agg [] = Inl ZeroDivisionError"
    by (rule metrics_loop_zero)
  then show ?thesis
    unfolding agg compute_metrics_def by (simp add: Let_def split: option.splits)
qed

theorem compute_metrics_zero_duration_witness:
  "(4, 100, 0) \<in> set [(2, 100, 8), (4, 100, 0), (8, 100, 2 :: real)] \<and>
   compute_metrics [(2, 100, 8), (4, 100, 0), (8, 100, 2)]
     = ([''[INFO] No nthreads=1 in timings, using nthreads=2 as base''], Inl ZeroDivisionError)"
proof -
  have "str_int 2 = ''2''"
    by (simp add: str_int_def digits_of_nat.simps digit_char_def)
  then have "fst (compute_metrics [(2, 100, 8), (4, 100, 0), (8, 100, 2)]) =
      [''[INFO] No nthreads=1 in timings, using nthreads=2 as base'']"
    by (simp add: compute_metrics_def fallback_message_def)
  with compute_metrics_zero_duration [of 4 100 "[(2, 100, 8), (4, 100, 0), (8, 100, 2)]"]
  show ?thesis
    by (simp add: prod_eq_iff)
qed

section \<open>The aggregator\<close>

lemma times_of_Cons:
  "times_of k ((nt, np, r, t) # ts) = (if nt = k then t # times_of k ts else times_of k ts)"
  by (simp add: times_of_def)

lemma times_of_empty_iff: "times_of k ts = [] \<longleftrightarrow> k \<notin> fst ` set ts"
  by (auto simp: times_of_def filter_empty_conv)

lemma map_of_setdefault_append:
  "map_of (setdefault_append d k' t) k =
     (if k = k' then Some ((case map_of d k of None \<Rightarrow> [] | Some l \<Rightarrow> l) @ [t])
      else map_of d k)"
  by (simp add: setdefault_append_def update_conv' split: option.splits)

lemma group_timings_times:
  "map_of (fst (group_timings ts tbs)) k =
     (if times_of k ts = [] then map_of (fst tbs) k
      else Some ((case map_of (fst tbs) k of None \<Rightarrow> [] | Some l \<Rightarrow> l) @ times_of k ts))"
proof (induction ts tbs rule: group_timings.induct)
  case (1 tbs)
  then show ?case by (simp add: times_of_def)
next
  case (2 nt np r t ts tbs)
  let ?tbs = "(setdefault_append (fst tbs) nt t, AList.update nt np (snd tbs))"
  have "map_of (fst (group_timings ((nt, np, r, t) # ts) tbs)) k =
        map_of (fst (group_timings ts ?tbs)) k"
    by simp
  also have "\<dots> = (if times_of k ts = [] then map_of (fst ?tbs) k
      else Some ((case map_of (fst ?tbs) k of None \<Rightarrow> [] | Some l \<Rightarrow> l) @ times_of k ts))"
    by (rule "2.IH")
  also have "\<dots> = (if times_of k ((nt, np, r, t) # ts) = [] then map_of (fst tbs) k
      else Some ((case map_of (fst tbs) k of None \<Rightarrow> [] | Some l \<Rightarrow> l) @
                 times_of k ((nt, np, r, t) # ts)))"
    by (simp add: map_of_setdefault_append times_of_Cons)
  finally show ?case .
qed

lemma last_npoints_Cons:
  "last_npoints k ((nt, np, r, t) # ts) =
     (if k \<in> fst ` set ts then last_npoints k ts else if nt = k then np else last_npoints k ts)"
  by (auto simp: last_npoints_def filter_empty_conv)

lemma group_timings_npoints:
  "map_of (snd (group_timings ts tbs)) k =
     (if k \<in> fst ` set ts then Some (last_npoints k ts) else map_of (snd tbs) k)"
proof (induction ts tbs rule: group_timings.induct)
  case (1 tbs)
  then show ?case by simp
next
  case (2 nt np r t ts tbs)
  show ?case
    by (simp add: "2.IH" last_npoints_Cons update_conv')
qed

lemma setdefault_append_keys:
  "fst ` set (setdefault_append d k t) = insert k (fst ` set d)"
  by (simp add: setdefault_append_def dom_update split: option.splits)

lemma setdefault_append_distinct:
  "distinct (map fst d) \<Longrightarrow> distinct (map fst (setdefault_append d k t))"
  by (simp add: setdefault_append_def distinct_update split: option.splits)

lemma group_timings_keys:
  "fst ` set (fst (group_timings ts tbs)) = fst ` set (fst tbs) \<union> fst ` set ts"
  by (induction ts tbs rule: group_timings.induct) (auto simp: setdefault_append_keys)

lemma group_timings_distinct:
  "distinct (map fst (fst tbs)) \<Longrightarrow> distinct (map fst (fst (group_timings ts tbs)))"
  by (induction ts tbs rule: group_timings.induct) (simp_all add: setdefault_append_distinct)

lemma sorted_keys:
  "sort (map fst (fst (group_timings ts ([], [])))) = sorted_list_of_set (fst ` set ts)"
proof -
  let ?ks = "map fst (fst (group_timings ts ([], [])))"
  have "distinct ?ks" by (rule group_timings_distinct) simp
  moreover have "set ?ks = fst ` set ts" using group_timings_keys [of ts "([], [])"] by simp
  ultimately show ?thesis
    by (metis distinct_remdups_id sorted_list_of_set_sort_remdups)
qed

lemma aggregate_keys_eq:
  assumes "set ks \<subseteq> fst ` set ts"
  shows "aggregate_keys (group_timings ts ([], [])) ks acc = Inr (acc @ map (group_mean ts) ks)"
  using assms
proof (induction ks arbitrary: acc)
  case Nil
  then show ?case by simp
next
  case (Cons k ks)
  then have k: "k \<in> fst ` set ts" and ks: "set ks \<subseteq> fst ` set ts" by simp_all
  from k have ne: "times_of k ts \<noteq> []" by (simp add: times_of_empty_iff)
  have t: "lookup (fst (group_timings ts ([], []))) k = Inr (times_of k ts)"
    using ne by (simp add: lookup_def group_timings_times)
  have n: "lookup (snd (group_timings ts ([], []))) k = Inr (last_npoints k ts)"
    using k by (simp add: lookup_def group_timings_npoints)
  show ?case
    using ne by (simp add: t n statistics_mean_def Cons.IH [OF ks] group_mean_def)
qed

lemma aggregate_by_nthreads_eq:
  "aggregate_by_nthreads ts = Inr (map (group_mean ts) (sorted_list_of_set (fst ` set ts)))"
proof -
  have "set (sorted_list_of_set (fst ` set ts)) \<subseteq> fst ` set ts" by simp
  then show ?thesis
    unfolding aggregate_by_nthreads_def Let_def sorted_keys
    by (simp add: aggregate_keys_eq)
qed

lemma last_filter_split:
  "filter P xs \<noteq> [] \<Longrightarrow>
   \<exists>pre post. xs = pre @ last (filter P xs) # post \<and> (\<forall>x \<in> set post. \<not> P x)"
proof (induction xs rule: rev_induct)
  case Nil
  then show ?case by simp
next
  case (snoc x xs)
  show ?case
  proof (cases "P x")
    case True
    then have "xs @ [x] = xs @ last (filter P (xs @ [x])) # []" by simp
    then show ?thesis by (metis empty_iff empty_set)
  next
    case False
    with snoc.prems have "filter P xs \<noteq> []" by simp
    from snoc.IH [OF this] obtain pre post
      where "xs = pre @ last (filter P xs) # post" "\<forall>x \<in> set post. \<not> P x" by blast
    with False have "xs @ [x] = pre @ last (filter P (xs @ [x])) # (post @ [x]) \<and>
        (\<forall>y \<in> set (post @ [x]). \<not> P y)" by simp
    then show ?thesis by blast
  qed
qed

lemma times_of_perm:
  assumes "mset ts' = mset ts"
  shows "sum_list (times_of k ts') = sum_list (times_of k ts)"
    and "length (times_of k ts') = length (times_of k ts)"
proof -
  have "mset (times_of k ts') = mset (times_of k ts)"
    using assms by (simp add: times_of_def)
  then show "sum_list (times_of k ts') = sum_list (times_of k ts)"
    and "length (times_of k ts') = length (times_of k ts)"
    by (metis sum_mset_sum_list, metis size_mset)
qed

lemma fst_group_mean: "map fst (map (group_mean ts) ks) = ks"
  by (induction ks) (simp_all add: group_mean_def)

lemma last_npoints_consistent:
  assumes "set ts' = set ts" and "k \<in> fst ` set ts"
    and "\<forall>x \<in> set ts. \<forall>y \<in> set ts. fst x = fst y \<longrightarrow> fst (snd x) = fst (snd y)"
  shows "last_npoints k ts' = last_npoints k ts"
proof -
  have ne: "filter (\<lambda>x. fst x = k) ts \<noteq> []" "filter (\<lambda>x. fst x = k) ts' \<noteq> []"
    using assms(1,2) by (auto simp: filter_empty_conv)
  let ?a = "last (filter (\<lambda>x. fst x = k) ts)" and ?b = "last (filter (\<lambda>x. fst x = k) ts')"
  have "?a \<in> set (filter (\<lambda>x. fst x = k) ts)" "?b \<in> set (filter (\<lambda>x. fst x = k) ts')"
    using ne by (blast intro: last_in_set)+
  then have "?a \<in> set ts" "?b \<in> set ts" "fst ?a = k" "fst ?b = k"
    using assms(1) by simp_all
  with assms(3) have "fst (snd ?b) = fst (snd ?a)" by metis
  then show ?thesis by (simp add: last_npoints_def)
qed

text \<open>
  C5. The aggregator never raises. Its rows are in strictly ascending order of thread
  count, one row for each thread count that occurs in the input, and the mean of a row is
  the sum of the times of the trials with that thread count divided by their number. For
  a permutation of the input the thread counts, their order and the means are the same;
  when moreover all trials of a thread count agree on the point count, the whole output is
  the same.
\<close>

theorem aggregate_by_nthreads_groups_means_order:
  assumes "mset ts' = mset ts"
  shows "\<exists>rows rows'.
           aggregate_by_nthreads ts = Inr rows \<and> aggregate_by_nthreads ts' = Inr rows' \<and>
           sorted_wrt (<) (map fst rows) \<and> fst ` set rows = fst ` set ts \<and>
           (\<forall>(nt, np, m) \<in> set rows.
              times_of nt ts \<noteq> [] \<and>
              m = sum_list (times_of nt ts) / real (length (times_of nt ts))) \<and>
           map (\<lambda>(nt, np, m). (nt, m)) rows' = map (\<lambda>(nt, np, m). (nt, m)) rows \<and>
           ((\<forall>x \<in> set ts. \<forall>y \<in> set ts. fst x = fst y \<longrightarrow> fst (snd x) = fst (snd y))
              \<longrightarrow> rows' = rows)"
proof -
  let ?ks = "sorted_list_of_set (fst ` set ts)"
  let ?rows = "map (group_mean ts) ?ks" and ?rows' = "map (group_mean ts') ?ks"
  have sets: "set ts' = set ts"
    using assms by (rule mset_eq_setD)
  have a: "aggregate_by_nthreads ts = Inr ?rows"
    by (rule aggregate_by_nthreads_eq)
  have b: "aggregate_by_nthreads ts' = Inr ?rows'"
    using aggregate_by_nthreads_eq [of ts'] sets by simp
  have c: "sorted_wrt (<) (map fst ?rows)"
    by (simp only: fst_group_mean) (simp add: strict_sorted_iff)
  have d: "fst ` set ?rows = fst ` set ts"
    by (simp add: image_image group_mean_def)
  have e: "\<forall>(nt, np, m) \<in> set ?rows.
              times_of nt ts \<noteq> [] \<and>
              m = sum_list (times_of nt ts) / real (length (times_of nt ts))"
    by (auto simp: group_mean_def times_of_empty_iff)
  have f: "map (\<lambda>(nt, np, m). (nt, m)) ?rows' = map (\<lambda>(nt, np, m). (nt, m)) ?rows"
    by (simp add: group_mean_def times_of_perm [OF assms])
  have g: "(\<forall>x \<in> set ts. \<forall>y \<in> set ts. fst x = fst y \<longrightarrow> fst (snd x) = fst (snd y))
              \<longrightarrow> ?rows' = ?rows"
  proof
    assume inv: "\<forall>x \<in> set ts. \<forall>y \<in> set ts. fst x = fst y \<longrightarrow> fst (snd x) = fst (snd y)"
    have "group_mean ts' k = group_mean ts k" if "k \<in> set ?ks" for k
    proof -
      from that have "k \<in> fst ` set ts" by simp
      then have "last_npoints k ts' = last_npoints k ts"
        using sets inv by (intro last_npoints_consistent)
      then show ?thesis
        by (simp add: group_mean_def times_of_perm [OF assms])
    qed
    then show "?rows' = ?rows" by simp
  qed
  from a b c d e f g show ?thesis by blast
qed

theorem aggregate_by_nthreads_groups_means_order_witness:
  "mset [(2, 100, 2, 5), (1, 100, 1, 10), (2, 100, 1, 6 :: real)]
     = mset [(1, 100, 1, 10), (2, 100, 1, 6), (2 :: int, 100 :: int, 2 :: int, 5)] \<and>
   aggregate_by_nthreads [(1, 100, 1, 10), (2, 100, 1, 6), (2, 100, 2, 5)]
     = Inr [(1, 100, 10), (2, 100, 11 / 2)] \<and>
   aggregate_by_nthreads [(2, 100, 2, 5), (1, 100, 1, 10), (2, 100, 1, 6)]
     = Inr [(1, 100, 10), (2, 100, 11 / 2)]"
proof -
  let ?ts = "[(1, 100, 1, 10), (2, 100, 1, 6), (2, 100, 2, 5)] :: timing list"
  let ?ts' = "[(2, 100, 2, 5), (1, 100, 1, 10), (2, 100, 1, 6)] :: timing list"
  have h: "mset ?ts' = mset ?ts" by simp
  from aggregate_by_nthreads_groups_means_order [OF h] obtain rows rows'
    where rows: "aggregate_by_nthreads ?ts = Inr rows"
      and rows': "aggregate_by_nthreads ?ts' = Inr rows'"
      and inv: "(\<forall>x \<in> set ?ts. \<forall>y \<in> set ?ts. fst x = fst y \<longrightarrow> fst (snd x) = fst (snd y))
              \<longrightarrow> rows' = rows"
    by blast
  have "\<forall>x \<in> set ?ts. \<forall>y \<in> set ?ts. fst x = fst y \<longrightarrow> fst (snd x) = fst (snd y)"
    by simp
  with inv have same: "rows' = rows" by blast
  have "aggregate_by_nthreads ?ts = Inr [(1, 100, 10), (2, 100, 11 / 2)]"
    by (simp add: aggregate_by_nthreads_def setdefault_append_def lookup_def
        statistics_mean_def Let_def)
  with rows rows' same h show ?thesis by simp
qed

text \<open>
  C10. The aggregator never raises, and the point count of each row is the point count of
  the last trial in the input with the row's thread count, whatever the point counts of
  the earlier trials with that thread count are.
\<close>

theorem aggregate_by_nthreads_npoints_last:
  "\<exists>rows. aggregate_by_nthreads ts = Inr rows \<and>
     (\<forall>(nt, np, m) \<in> set rows.
        \<exists>pre r t post. ts = pre @ (nt, np, r, t) # post \<and> (\<forall>x \<in> set post. fst x \<noteq> nt))"
proof -
  let ?rows = "map (group_mean ts) (sorted_list_of_set (fst ` set ts))"
  have "\<exists>pre r t post. ts = pre @ (nt, np, r, t) # post \<and> (\<forall>x \<in> set post. fst x \<noteq> nt)"
    if "(nt, np, m) \<in> set ?rows" for nt np m
  proof -
    from that have k: "nt \<in> fst ` set ts" and np: "np = last_npoints nt ts"
      by (auto simp: group_mean_def)
    let ?xs = "filter (\<lambda>x. fst x = nt) ts"
    from k have ne: "?xs \<noteq> []" by (auto simp: filter_empty_conv)
    then have "last ?xs \<in> set ?xs" by (rule last_in_set)
    then have key: "fst (last ?xs) = nt" by simp
    obtain r t where l: "last ?xs = (nt, np, r, t)"
      using key np by (cases "last ?xs") (auto simp: last_npoints_def)
    from last_filter_split [OF ne] obtain pre post
      where "ts = pre @ last ?xs # post" "\<forall>x \<in> set post. fst x \<noteq> nt" by blast
    with l show ?thesis by auto
  qed
  then have "\<forall>(nt, np, m) \<in> set ?rows.
        \<exists>pre r t post. ts = pre @ (nt, np, r, t) # post \<and> (\<forall>x \<in> set post. fst x \<noteq> nt)"
    by blast
  then show ?thesis
    using aggregate_by_nthreads_eq [of ts] by blast
qed

theorem aggregate_by_nthreads_npoints_last_witness:
  "aggregate_by_nthreads [(2, 100, 1, 6), (1, 50, 1, 10), (2, 200, 2, 5)]
     = Inr [(1, 50, 10), (2, 200, 11 / 2)]"
proof -
  let ?ts = "[(2, 100, 1, 6), (1, 50, 1, 10), (2, 200, 2, 5)] :: timing list"
  from aggregate_by_nthreads_npoints_last [of ?ts] obtain rows
    where rows: "aggregate_by_nthreads ?ts = Inr rows"
      and last: "\<forall>(nt, np, m) \<in> set rows.
        \<exists>pre r t post. ?ts = pre @ (nt, np, r, t) # post \<and> (\<forall>x \<in> set post. fst x \<noteq> nt)"
    by blast
  have "aggregate_by_nthreads ?ts = Inr [(1, 50, 10), (2, 200, 11 / 2)]"
    by (simp add: aggregate_by_nthreads_def setdefault_append_def lookup_def
        statistics_mean_def Let_def)
  with rows last show ?thesis by simp
qed

section \<open>The CSV writers\<close>

























section \<open>The N-body batch\<close>


lemma run_target_failed:
  "rc (launch (target_args target) None (launches w)) \<noteq> 0 \<Longrightarrow>
   snd (run_target launch cfg target w) = None"
  by (simp add: run_target_def Let_def)





section \<open>Missing metrics in the two batches\<close>











text \<open>
  The four timing entries are read with \<open>.split()[0]\<close>: when one of them is missing
  from a metrics file that exists, the default \<open>""\<close> has no first word, \<open>IndexError\<close>
  ends the batch at that trial, and the configuration file keeps the configuration of that
  trial.
\<close>

lemma run_target_empty_metrics_file:
  assumes "rc (launch (target_args ''cpu'') None (launches w)) = 0"
    and "metrics_cpu (launch (target_args ''cpu'') None (launches w)) = Some []"
  shows "run_target launch cfg ''cpu'' w = (w\<lparr>launches := Suc (launches w)\<rparr>, Some IndexError)"
  using assms
  by (simp add: run_target_def collect_metrics_def cpu_row_def summary_row_def first_word_def
      dict_get_def split_ws_def index_def Let_def)

lemma main_task2_empty_metrics_file:
  assumes "config_file w = Some c"
    and "rc (launch (target_args ''cpu'') None (launches w)) = 0"
    and "metrics_cpu (launch (target_args ''cpu'') None (launches w)) = Some []"
  shows "main_task2 launch True w =
         (w\<lparr>summary := join '','' header_cols @ [LF],
            config_file := Some (make_new_config (Some c) 10000 10 ''random_N100.txt''),
            launches := Suc (launches w)\<rparr>, Inl IndexError)"
proof -
  let ?cfg = "mk_cfg ''N100_dt10'' 10000 10 ''random_N100.txt''"
  let ?w = "w\<lparr>summary := join '','' header_cols @ [LF],
              config_file := Some (make_new_config (Some c) 10000 10 ''random_N100.txt'')\<rparr>"
  have "run_target launch ?cfg ''cpu'' ?w = (?w\<lparr>launches := Suc (launches ?w)\<rparr>, Some IndexError)"
    by (rule run_target_empty_metrics_file) (simp_all add: assms)
  then have "run_cfg launch (Some c) ?cfg (w\<lparr>summary := join '','' header_cols @ [LF]\<rparr>) =
      (?w\<lparr>launches := Suc (launches w)\<rparr>, Some IndexError)"
    by (simp add: run_cfg_def TARGETS_def write_json_config_def mk_cfg_def)
  then have "run_cfgs launch (Some c) BATCH_CONFIGS (w\<lparr>summary := join '','' header_cols @ [LF]\<rparr>) =
      (?w\<lparr>launches := Suc (launches w)\<rparr>, Some IndexError)"
    by (simp only: BATCH_CONFIGS_def run_cfgs.simps prod.case option.case)
  then show ?thesis
    using assms(1)
    by (simp add: main_task2_def read_json_config_def Let_def)
qed



end
